theory Spec2Isabelle
  imports Main "HOL-Library.Sublist"
begin

section \<open>Strings and characters\<close>

text \<open>
  A JavaScript string is a sequence of UTF-16 code units. The embedding works on
  \<^typ>\<open>string\<close>, whose characters are read as the code units 0 to 255 (ISO 8859-1): every
  pattern and every literal of the source is ASCII, and the character classes below are
  the ECMAScript ones cut down to that range.
\<close>

abbreviation DQ :: char where "DQ \<equiv> CHR 0x22"
abbreviation NL :: char where "NL \<equiv> CHR 0x0A"

text \<open>The class \<open>\w\<close>: \<open>[A-Za-z0-9_]\<close>.\<close>

definition isWordChar :: "char \<Rightarrow> bool" where
  "isWordChar c = (let n = (of_char c :: nat) in
     (48 \<le> n \<and> n \<le> 57) \<or> (65 \<le> n \<and> n \<le> 90) \<or> n = 95 \<or> (97 \<le> n \<and> n \<le> 122))"

text \<open>The class \<open>\d\<close>: \<open>[0-9]\<close>.\<close>

definition isDigitChar :: "char \<Rightarrow> bool" where
  "isDigitChar c = (let n = (of_char c :: nat) in 48 \<le> n \<and> n \<le> 57)"

text \<open>
  The class \<open>\s\<close>, which is also what \<open>trim\<close> strips: tab, line feed, vertical tab, form
  feed, carriage return, space and the no-break space.
\<close>

definition isSpaceChar :: "char \<Rightarrow> bool" where
  "isSpaceChar c = (let n = (of_char c :: nat) in (9 \<le> n \<and> n \<le> 13) \<or> n = 32 \<or> n = 160)"

text \<open>The line terminators, which \<open>.\<close> does not match: line feed and carriage return.\<close>

definition isLineTerminator :: "char \<Rightarrow> bool" where
  "isLineTerminator c = (let n = (of_char c :: nat) in n = 10 \<or> n = 13)"

definition toLowerChar :: "char \<Rightarrow> char" where
  "toLowerChar c = (let n = (of_char c :: nat) in
     if (65 \<le> n \<and> n \<le> 90) \<or> (192 \<le> n \<and> n \<le> 214) \<or> (216 \<le> n \<and> n \<le> 222)
     then char_of (n + 32) else c)"

definition toUpperChar :: "char \<Rightarrow> char" where
  "toUpperChar c = (let n = (of_char c :: nat) in
     if (97 \<le> n \<and> n \<le> 122) \<or> (224 \<le> n \<and> n \<le> 246) \<or> (248 \<le> n \<and> n \<le> 254)
     then char_of (n - 32) else c)"

definition toLowerCase :: "string \<Rightarrow> string" where
  "toLowerCase s = map toLowerChar s"

definition trim :: "string \<Rightarrow> string" where
  "trim s = rev (dropWhile isSpaceChar (rev (dropWhile isSpaceChar s)))"

definition startsWith :: "string \<Rightarrow> string \<Rightarrow> bool" where
  "startsWith s t = prefix t s"

definition endsWith :: "string \<Rightarrow> string \<Rightarrow> bool" where
  "endsWith s t = suffix t s"

text \<open>\<open>s.includes(t)\<close>; the name \<open>includes\<close> is reserved in Isabelle.\<close>

fun str_includes :: "string \<Rightarrow> string \<Rightarrow> bool" where
  "str_includes [] t = (t = [])"
| "str_includes (c # cs) t = (prefix t (c # cs) \<or> str_includes cs t)"

section \<open>Regular expressions\<close>

text \<open>
  The patterns of the source are ECMAScript regular expressions, matched by backtracking.
  \<open>rx\<close> is their abstract syntax; \<open>ms\<close> lists, in the order in which the backtracking
  matcher would reach them, the states in which a pattern can stop when started in a
  given state. A state is the character before the current position (none at the start
  of the input), the rest of the input, and the captures made so far. The head of the
  list is the match ECMAScript reports.
\<close>

record flags =
  ignoreCase :: bool
  multiline :: bool

datatype rx =
    Lit char
  | Cls "char \<Rightarrow> bool"
  | Eps
  | Seq rx rx
  | Alt rx rx
  | Star bool rx
  | Opt bool rx
  | Grp nat rx
  | Bref nat
  | Bol
  | Eol
  | WordB

type_synonym caps = "nat \<Rightarrow> string option"
type_synonym mstate = "char option \<times> string \<times> caps"

text \<open>Under the flag \<open>i\<close> two characters match when their upper-case forms agree.\<close>

definition canonicalize :: "flags \<Rightarrow> char \<Rightarrow> char" where
  "canonicalize f c = (if ignoreCase f then toUpperChar c else c)"

fun groupsOf :: "rx \<Rightarrow> nat list" where
  "groupsOf (Seq a b) = groupsOf a @ groupsOf b"
| "groupsOf (Alt a b) = groupsOf a @ groupsOf b"
| "groupsOf (Star g a) = groupsOf a"
| "groupsOf (Opt g a) = groupsOf a"
| "groupsOf (Grp n a) = n # groupsOf a"
| "groupsOf _ = []"

definition clearCaps :: "nat list \<Rightarrow> caps \<Rightarrow> caps" where
  "clearCaps ns cs = (\<lambda>n. if List.member ns n then None else cs n)"

definition isWordOpt :: "char option \<Rightarrow> bool" where
  "isWordOpt p = (case p of None \<Rightarrow> False | Some c \<Rightarrow> isWordChar c)"

definition lastOr :: "char option \<Rightarrow> string \<Rightarrow> char option" where
  "lastOr p s = (if s = [] then p else Some (last s))"

text \<open>
  \<open>Star greedy a\<close> is \<open>a*\<close> (greedy) or \<open>a*?\<close> (lazy), \<open>Opt greedy a\<close> is \<open>a?\<close> or \<open>a??\<close>.
  As in ECMAScript, an iteration of a quantified atom starts with the atom's captures
  cleared and is rejected when it consumes nothing.
\<close>

function ms :: "flags \<Rightarrow> rx \<Rightarrow> mstate \<Rightarrow> mstate list" where
  "ms f (Lit c) (p, xs, cs) =
     (case xs of [] \<Rightarrow> []
      | x # xs' \<Rightarrow> if canonicalize f x = canonicalize f c then [(Some x, xs', cs)] else [])"
| "ms f (Cls P) (p, xs, cs) =
     (case xs of [] \<Rightarrow> [] | x # xs' \<Rightarrow> if P x then [(Some x, xs', cs)] else [])"
| "ms f Eps st = [st]"
| "ms f (Seq a b) st = concat (map (ms f b) (ms f a st))"
| "ms f (Alt a b) st = ms f a st @ ms f b st"
| "ms f (Star greedy a) (p, xs, cs) =
     (let more = concat (map (ms f (Star greedy a))
                   (filter (\<lambda>(p', xs', cs'). length xs' < length xs)
                      (ms f a (p, xs, clearCaps (groupsOf a) cs))))
      in if greedy then more @ [(p, xs, cs)] else (p, xs, cs) # more)"
| "ms f (Opt greedy a) (p, xs, cs) =
     (let one = filter (\<lambda>(p', xs', cs'). length xs' < length xs)
                  (ms f a (p, xs, clearCaps (groupsOf a) cs))
      in if greedy then one @ [(p, xs, cs)] else (p, xs, cs) # one)"
| "ms f (Grp n a) (p, xs, cs) =
     map (\<lambda>(p', xs', cs'). (p', xs', cs'(n \<mapsto> take (length xs - length xs') xs)))
       (ms f a (p, xs, cs))"
| "ms f (Bref n) (p, xs, cs) =
     (case cs n of None \<Rightarrow> [(p, xs, cs)]
      | Some g \<Rightarrow>
          if length g \<le> length xs
             \<and> map (canonicalize f) (take (length g) xs) = map (canonicalize f) g
          then [(lastOr p (take (length g) xs), drop (length g) xs, cs)] else [])"
| "ms f Bol (p, xs, cs) =
     (case p of None \<Rightarrow> [(p, xs, cs)]
      | Some c \<Rightarrow> if multiline f \<and> isLineTerminator c then [(p, xs, cs)] else [])"
| "ms f Eol (p, xs, cs) =
     (case xs of [] \<Rightarrow> [(p, xs, cs)]
      | x # xs' \<Rightarrow> if multiline f \<and> isLineTerminator x then [(p, xs, cs)] else [])"
| "ms f WordB (p, xs, cs) =
     (if isWordOpt p \<noteq> isWordOpt (case xs of [] \<Rightarrow> None | x # xs' \<Rightarrow> Some x)
      then [(p, xs, cs)] else [])"
  by pat_completeness auto
termination
  by (relation "inv_image (less_than <*lex*> less_than)
                  (\<lambda>(f, r, (p, xs, cs)). (size r, length xs))") auto

text \<open>\<open>a+\<close> and \<open>a+?\<close>: one iteration, then \<open>a*\<close> or \<open>a*?\<close>.\<close>

definition Plus :: "bool \<Rightarrow> rx \<Rightarrow> rx" where
  "Plus greedy a = Seq a (Star greedy a)"

definition seqs :: "rx list \<Rightarrow> rx" where
  "seqs rs = foldr Seq rs Eps"

definition lits :: "string \<Rightarrow> rx" where
  "lits s = seqs (map Lit s)"

text \<open>The atom \<open>.\<close>, and the flag sets the source uses.\<close>

definition dot :: rx where
  "dot = Cls (\<lambda>c. \<not> isLineTerminator c)"

definition flags_none :: flags where
  "flags_none = \<lparr>ignoreCase = False, multiline = False\<rparr>"

definition flags_i :: flags where
  "flags_i = \<lparr>ignoreCase = True, multiline = False\<rparr>"

definition flags_im :: flags where
  "flags_im = \<lparr>ignoreCase = True, multiline = True\<rparr>"

text \<open>A pattern never moves backwards: every stop is a suffix no longer than the input.\<close>

lemma ms_length_st:
  "st' \<in> set (ms f r st) \<Longrightarrow> length (fst (snd st')) \<le> length (fst (snd st))"
proof (induction f r st arbitrary: st' rule: ms.induct)
  case (1 f c p xs cs)
  then show ?case by (cases xs) (auto split: if_splits)
next
  case (2 f P p xs cs)
  then show ?case by (cases xs) (auto split: if_splits)
next
  case (3 f st)
  then show ?case by simp
next
  case (4 f a b st)
  from "4.prems" obtain mid where
    mid: "mid \<in> set (ms f a st)" and fin: "st' \<in> set (ms f b mid)"
    by auto
  from "4.IH"(1)[OF mid] "4.IH"(2)[OF mid fin] show ?case by simp
next
  case (5 f a b st)
  from "5.prems" have "st' \<in> set (ms f a st) \<or> st' \<in> set (ms f b st)" by simp
  then show ?case using "5.IH" by blast
next
  case (6 f greedy a p xs cs)
  let ?F = "filter (\<lambda>(p', xs', cs'). length xs' < length xs)
              (ms f a (p, xs, clearCaps (groupsOf a) cs))"
  have unfold: "set (ms f (Star greedy a) (p, xs, cs))
                  = insert (p, xs, cs) (\<Union>m\<in>set ?F. set (ms f (Star greedy a) m))"
    by (subst ms.simps) (simp del: ms.simps add: Let_def)
  from "6.prems" unfold consider
    (stop) "st' = (p, xs, cs)"
    | (more) mid where "mid \<in> set ?F" "st' \<in> set (ms f (Star greedy a) mid)"
    by blast
  then show ?case
  proof cases
    case stop
    then show ?thesis by simp
  next
    case more
    have "length (fst (snd mid)) < length xs"
      using more(1) by (auto simp: case_prod_beta)
    with "6.IH"(2)[OF more(1) more(2)] show ?thesis by simp
  qed
next
  case (7 f greedy a p xs cs)
  have "st' = (p, xs, cs) \<or> length (fst (snd st')) < length xs"
    using "7.prems" by (auto simp: Let_def case_prod_beta split: if_splits)
  then show ?case by auto
next
  case (8 f n a p xs cs)
  obtain mid where
    "mid \<in> set (ms f a (p, xs, cs))" "fst (snd st') = fst (snd mid)"
    using "8.prems" by (auto simp: case_prod_beta)
  with "8.IH"[of mid] show ?case by simp
next
  case (9 f n p xs cs)
  then show ?case by (auto split: option.splits if_splits)
next
  case (10 f p xs cs)
  then show ?case by (auto split: option.splits if_splits)
next
  case (11 f p xs cs)
  then show ?case by (auto split: list.splits if_splits)
next
  case (12 f p xs cs)
  then show ?case by (auto split: if_splits)
qed

lemma ms_length:
  "(p', xs', cs') \<in> set (ms f r (p, xs, cs)) \<Longrightarrow> length xs' \<le> length xs"
  using ms_length_st[of "(p', xs', cs')" f r "(p, xs, cs)"] by simp

section \<open>The regular-expression drivers of the standard library\<close>

text \<open>
  \<open>search\<close> is one call of \<open>exec\<close>: the pattern is tried at the current position, then
  one character further, and so on up to the end of the input. It returns the distance
  to the match, the length of the match and its captures.
\<close>

fun search :: "flags \<Rightarrow> rx \<Rightarrow> char option \<Rightarrow> string \<Rightarrow> (nat \<times> nat \<times> caps) option" where
  "search f r p xs =
     (case ms f r (p, xs, Map.empty) of
        (p', xs', cs) # _ \<Rightarrow> Some (0, length xs - length xs', cs)
      | [] \<Rightarrow>
          (case xs of [] \<Rightarrow> None
           | x # xs' \<Rightarrow>
               (case search f r (Some x) xs' of None \<Rightarrow> None
                | Some (k, l, cs) \<Rightarrow> Some (Suc k, l, cs))))"

declare search.simps [simp del]

lemma search_bound:
  "search f r p xs = Some (k, l, cs) \<Longrightarrow> k + l \<le> length xs"
proof (induction xs arbitrary: p k l cs)
  case Nil
  then show ?case
    by (auto simp: search.simps[of f r p "[]"] split: list.splits)
next
  case (Cons x xs)
  show ?case
  proof (cases "ms f r (p, x # xs, Map.empty)")
    case Nil
    with Cons.prems obtain k' where
      "search f r (Some x) xs = Some (k', l, cs)" "k = Suc k'"
      by (auto simp: search.simps[of f r p "x # xs"] split: option.splits)
    with Cons.IH[of "Some x" k' l cs] show ?thesis by simp
  next
    case (Cons st rest)
    with Cons.prems show ?thesis
      by (auto simp: search.simps[of f r p "x # xs"] split: prod.splits)
  qed
qed

text \<open>
  \<open>s.replace(r, cb)\<close> for a pattern with the flag \<open>g\<close>: every match is replaced by what
  the callback returns for the matched text and its captures, the text between the
  matches is copied, and after an empty match the search resumes one character further.
\<close>

function replaceAll ::
  "flags \<Rightarrow> rx \<Rightarrow> (string \<Rightarrow> caps \<Rightarrow> string) \<Rightarrow> char option \<Rightarrow> string \<Rightarrow> string" where
  "replaceAll f r cb p xs =
     (case search f r p xs of
        None \<Rightarrow> xs
      | Some (k, l, cs) \<Rightarrow>
          (let e = k + l; out = take k xs @ cb (take l (drop k xs)) cs
           in if l = 0
              then (case drop e xs of [] \<Rightarrow> out
                    | c # rest \<Rightarrow> out @ c # replaceAll f r cb (Some c) rest)
              else out @ replaceAll f r cb (lastOr p (take e xs)) (drop e xs)))"
  by pat_completeness auto
termination
proof (relation "measure (\<lambda>(f, r, cb, p, xs). length xs)", goal_cases)
  case 1
  show ?case by simp
next
  case (2 f r cb p xs found k rest l cs e out c tl)
  have "length (drop e xs) \<le> length xs" by simp
  with 2 show ?case by simp
next
  case (3 f r cb p xs found k rest l cs e out)
  from 3 have "search f r p xs = Some (k, l, cs)" by simp
  from search_bound[OF this] 3 show ?case by simp
qed

declare replaceAll.simps [simp del]

text \<open>
  \<open>s.replace(r, cb)\<close> for a pattern without the flag \<open>g\<close>: the first match only.
\<close>

definition replaceFirst ::
  "flags \<Rightarrow> rx \<Rightarrow> (string \<Rightarrow> caps \<Rightarrow> string) \<Rightarrow> string \<Rightarrow> string" where
  "replaceFirst f r cb xs =
     (case search f r None xs of
        None \<Rightarrow> xs
      | Some (k, l, cs) \<Rightarrow> take k xs @ cb (take l (drop k xs)) cs @ drop (k + l) xs)"

text \<open>
  \<open>s.match(r)\<close> for a pattern with the flag \<open>g\<close>: the texts of all matches, found as
  \<open>replace\<close> finds them, or \<open>null\<close> when there is none.
\<close>

function matchesFrom :: "flags \<Rightarrow> rx \<Rightarrow> char option \<Rightarrow> string \<Rightarrow> string list" where
  "matchesFrom f r p xs =
     (case search f r p xs of
        None \<Rightarrow> []
      | Some (k, l, cs) \<Rightarrow>
          (let e = k + l; m = take l (drop k xs)
           in if l = 0
              then (case drop e xs of [] \<Rightarrow> [m]
                    | c # rest \<Rightarrow> m # matchesFrom f r (Some c) rest)
              else m # matchesFrom f r (lastOr p (take e xs)) (drop e xs)))"
  by pat_completeness auto
termination
proof (relation "measure (\<lambda>(f, r, p, xs). length xs)", goal_cases)
  case 1
  show ?case by simp
next
  case (2 f r p xs found k rest l cs e m c tl)
  have "length (drop e xs) \<le> length xs" by simp
  with 2 show ?case by simp
next
  case (3 f r p xs found k rest l cs e m)
  from 3 have "search f r p xs = Some (k, l, cs)" by simp
  from search_bound[OF this] 3 show ?case by simp
qed

declare matchesFrom.simps [simp del]

definition match_g :: "flags \<Rightarrow> rx \<Rightarrow> string \<Rightarrow> string list option" where
  "match_g f r s = (case matchesFrom f r None s of [] \<Rightarrow> None | m # rest \<Rightarrow> Some (m # rest))"

text \<open>\<open>r.test(s)\<close> for a pattern without the flag \<open>g\<close>.\<close>

definition test :: "flags \<Rightarrow> rx \<Rightarrow> string \<Rightarrow> bool" where
  "test f r s = (search f r None s \<noteq> None)"

text \<open>A capture that took no part in the match is substituted as the empty string.\<close>

definition grp :: "caps \<Rightarrow> nat \<Rightarrow> string" where
  "grp cs n = (case cs n of None \<Rightarrow> [] | Some g \<Rightarrow> g)"

definition alts :: "rx list \<Rightarrow> rx" where
  "alts rs = foldr Alt (butlast rs) (last rs)"

text \<open>
  \<open>new Set(xs)\<close>: the elements are added in order and one that is already there is
  skipped. The set is kept as the list of its elements in insertion order, which is
  what \<open>Array.from\<close> reads back.
\<close>

fun addAll :: "'a list \<Rightarrow> 'a list \<Rightarrow> 'a list" where
  "addAll acc [] = acc"
| "addAll acc (x # xs) = addAll (if x \<in> set acc then acc else acc @ [x]) xs"

definition newSet :: "'a list \<Rightarrow> 'a list" where
  "newSet xs = addAll [] xs"

section \<open>The analysis worker: tokenizer\<close>

definition stopWords :: "string list" where
  "stopWords = newSet [''the'', ''and'', ''is'', ''in'', ''it'', ''to'', ''of'', ''for'',
                       ''with'', ''on'', ''at'', ''by'']"

text \<open>
  \<open>s.split(/\s+/)\<close>: the pieces between the maximal runs of white space; a run at the
  start or at the end of the input leaves an empty piece there, and the empty input
  gives one empty piece. \<open>cur\<close> is the piece being read.
\<close>

function splitWs :: "string \<Rightarrow> string \<Rightarrow> string list" where
  "splitWs cur [] = [cur]"
| "splitWs cur (c # cs) =
     (if isSpaceChar c then cur # splitWs [] (dropWhile isSpaceChar cs)
      else splitWs (cur @ [c]) cs)"
  by pat_completeness auto
termination
  by (relation "measure (\<lambda>(cur, s). length s)")
     (auto simp: le_imp_less_Suc length_dropWhile_le)

text \<open>
  \<open>tokenize\<close>: lower-case the text, delete every character that is neither a word
  character nor white space (\<open>replace(/[^\w\s]/g, '')\<close>), split at white space, keep the
  words longer than two characters that are not stop words, and collect them in a set.
\<close>

definition tokenize :: "string \<Rightarrow> string list" where
  "tokenize txt =
     newSet (filter (\<lambda>w. length w > 2 \<and> w \<notin> set stopWords)
       (splitWs [] (filter (\<lambda>c. isWordChar c \<or> isSpaceChar c) (toLowerCase txt))))"

section \<open>The analysis worker: health scoring\<close>

text \<open>
  A field of a message payload is any JavaScript value; calling a string method on a
  value that is not a string throws a \<open>TypeError\<close>. A \<open>while\<close> loop over \<open>exec\<close> spins
  forever when the pattern matches the empty string, which is the failure \<open>NoReturn\<close>.
\<close>

datatype jsval = Str string | Num int | Undefined | Null

datatype failure = TypeError | NoReturn

text \<open>A JavaScript number that is an integer, or \<open>NaN\<close>.\<close>

datatype number = Finite int | NaN

datatype status = idle | scanning | optimizing | review_pending | published | error

record metrics =
  wordCount :: int
  hasSchema :: bool
  hasVerdict :: bool
  brokenMedia :: int
  internalLinks :: int
  externalLinks :: int
  entityDensity :: int
  lastUpdatedDayCount :: number

record PostHealth =
  post_id :: jsval
  score :: int
  aeoScore :: int
  post_status :: status
  post_metrics :: metrics

record payload =
  payload_id :: jsval
  content :: jsval
  modified :: jsval
  siteUrl :: jsval

text \<open>The pattern \<open>/\b\w+\b/g\<close>.\<close>

definition wordRegex :: rx where
  "wordRegex = seqs [WordB, Plus True (Cls isWordChar), WordB]"

text \<open>The pattern \<open>/verdict|conclusion|summary|pros and cons|bottom line/i\<close>.\<close>

definition verdictRegex :: rx where
  "verdictRegex = alts [lits ''verdict'', lits ''conclusion'', lits ''summary'',
                        lits ''pros and cons'', lits ''bottom line'']"

text \<open>The pattern \<open>/href=["'](.*?)["']/g\<close>.\<close>

definition isQuote :: "char \<Rightarrow> bool" where
  "isQuote c = (c = DQ \<or> c = CHR 0x27)"

definition linkRegex :: rx where
  "linkRegex = seqs [lits ''href='', Cls isQuote, Grp 1 (Star False dot), Cls isQuote]"

text \<open>The pattern \<open>/\/$/\<close>, and \<open>u.replace(/\/$/, '')\<close>.\<close>

definition trailingSlash :: rx where
  "trailingSlash = seqs [Lit (CHR ''/''), Eol]"

definition stripSlash :: "string \<Rightarrow> string" where
  "stripSlash u = replaceFirst flags_none trailingSlash (\<lambda>m cs. []) u"

text \<open>
  The loop \<open>while ((match = linkRegex.exec(content)) !== null)\<close> with its two counters.
  Each \<open>exec\<close> resumes where the last match ended.
\<close>

definition countLink :: "string \<Rightarrow> string \<Rightarrow> int \<times> int \<Rightarrow> int \<times> int" where
  "countLink cleanSite url c =
     (case c of (internal, external) \<Rightarrow>
        if str_includes url cleanSite \<or> startsWith url ''/'' then (internal + 1, external)
        else if startsWith url ''http'' then (internal, external + 1)
        else (internal, external))"

function linkLoop :: "string \<Rightarrow> char option \<Rightarrow> string \<Rightarrow> int \<times> int \<Rightarrow> (int \<times> int) option" where
  "linkLoop cleanSite p xs c =
     (case search flags_none linkRegex p xs of
        None \<Rightarrow> Some c
      | Some (k, l, cs) \<Rightarrow>
          if l = 0 then None
          else linkLoop cleanSite (lastOr p (take (k + l) xs)) (drop (k + l) xs)
                 (countLink cleanSite (grp cs 1) c))"
  by pat_completeness auto
termination
proof (relation "measure (\<lambda>(cleanSite, p, xs, c). length xs)", goal_cases)
  case 1
  show ?case by simp
next
  case (2 cleanSite p xs c found k rest l cs)
  from 2 have "search flags_none linkRegex p xs = Some (k, l, cs)" by simp
  from search_bound[OF this] 2 show ?case by simp
qed

declare linkLoop.simps [simp del]

text \<open>
  \<open>new Date(modified).getTime()\<close>: the parser of date strings belongs to the platform and
  is a parameter, \<open>None\<close> standing for a string it rejects (the time value is then
  \<open>NaN\<close>). A number is its own time value when it is in the range of dates.
\<close>

definition getTime :: "(string \<Rightarrow> int option) \<Rightarrow> jsval \<Rightarrow> number" where
  "getTime parseDate v =
     (case v of
        Str s \<Rightarrow> (case parseDate s of None \<Rightarrow> NaN | Some t \<Rightarrow> Finite t)
      | Num n \<Rightarrow> (if \<bar>n\<bar> \<le> 8640000000000000 then Finite n else NaN)
      | Undefined \<Rightarrow> NaN
      | Null \<Rightarrow> Finite 0)"

text \<open>
  \<open>Math.ceil(Math.abs(now - t) / 86400000)\<close>. Time values are integers below
  \<open>2^53\<close> in size, for which the floating-point quotient rounds up to the same integer as
  the exact one.
\<close>

definition diffDays :: "int \<Rightarrow> number \<Rightarrow> number" where
  "diffDays now t =
     (case t of NaN \<Rightarrow> NaN | Finite m \<Rightarrow> Finite (- ((- \<bar>now - m\<bar>) div 86400000)))"

text \<open>\<open>d > n\<close> on numbers: false when \<open>d\<close> is \<open>NaN\<close>.\<close>

definition gt :: "number \<Rightarrow> int \<Rightarrow> bool" where
  "gt d n = (case d of NaN \<Rightarrow> False | Finite m \<Rightarrow> m > n)"

definition seoScore :: "number \<Rightarrow> int \<Rightarrow> int \<Rightarrow> int \<Rightarrow> bool \<Rightarrow> int" where
  "seoScore days words internal external schema =
     100 - (if gt days 365 then 20 else 0)
         - (if words < 1000 then 15 else 0)
         - (if internal < 3 then 15 else 0)
         - (if external < 3 then 10 else 0)
         - (if \<not> schema then 10 else 0)"

definition aeoScoreOf :: "int \<Rightarrow> bool \<Rightarrow> bool \<Rightarrow> int" where
  "aeoScoreOf words schema verdict =
     100 - (if \<not> verdict then 30 else 0)
         - (if words < 1500 then 10 else 0)
         - (if \<not> schema then 25 else 0)"

definition analyzeHealth ::
  "int \<Rightarrow> (string \<Rightarrow> int option) \<Rightarrow> payload \<Rightarrow> failure + PostHealth" where
  "analyzeHealth now parseDate pl =
     (case content pl of
        Str body \<Rightarrow>
          (let words = int (length (case match_g flags_none wordRegex body of
                                     None \<Rightarrow> [] | Some found \<Rightarrow> found));
               schema = str_includes body ''application/ld+json'';
               verdict = test flags_i verdictRegex body
           in case siteUrl pl of
                Str site \<Rightarrow>
                  (case linkLoop (stripSlash site) None body (0, 0) of
                     None \<Rightarrow> Inl NoReturn
                   | Some (internal, external) \<Rightarrow>
                       (let days = diffDays now (getTime parseDate (modified pl))
                        in Inr \<lparr>post_id = payload_id pl,
                                score = max 0 (seoScore days words internal external schema),
                                aeoScore = max 0 (aeoScoreOf words schema verdict),
                                post_status = idle,
                                post_metrics =
                                  \<lparr>wordCount = words, hasSchema = schema,
                                   hasVerdict = verdict, brokenMedia = 0,
                                   internalLinks = internal, externalLinks = external,
                                   entityDensity = 0, lastUpdatedDayCount = days\<rparr>\<rparr>))
              | _ \<Rightarrow> Inl TypeError)
      | _ \<Rightarrow> Inl TypeError)"

section \<open>The analysis worker: mesh building\<close>

record WPPostHeader =
  wp_id :: int
  title_rendered :: string
  link :: string
  slug :: string

record SemanticNode =
  node_id :: int
  title :: string
  url :: string
  tokens :: "string list"

definition buildMesh :: "WPPostHeader list \<Rightarrow> SemanticNode list" where
  "buildMesh posts =
     map (\<lambda>p. \<lparr>node_id = wp_id p, title = title_rendered p, url = link p,
                tokens = tokenize (title_rendered p @ '' '' @ slug p)\<rparr>) posts"

section \<open>The link sanitizer\<close>

text \<open>
  \<open>normalize\<close>: \<open>new URL(u).pathname\<close> belongs to the platform and is the parameter
  \<open>pathname\<close>, \<open>None\<close> standing for a string the constructor rejects by throwing, which
  the source catches.
\<close>

definition normalize :: "(string \<Rightarrow> string option) \<Rightarrow> string \<Rightarrow> string" where
  "normalize pathname u =
     (if startsWith u ''http''
      then (case pathname u of
              Some path \<Rightarrow> toLowerCase (stripSlash path)
            | None \<Rightarrow> toLowerCase (stripSlash u))
      else toLowerCase (stripSlash u))"

definition validPathsOf :: "(string \<Rightarrow> string option) \<Rightarrow> SemanticNode list \<Rightarrow> string list" where
  "validPathsOf pathname validNodes = newSet (map (\<lambda>n. normalize pathname (url n)) validNodes)"

text \<open>
  The pattern \<open>/<a\s+(?:[^>]*?\s+)?href=(["'])(.*?)\1[^>]*>(.*?)<\/a>/gi\<close>.
\<close>

definition notGt :: rx where
  "notGt = Cls (\<lambda>c. c \<noteq> CHR ''>'')"

definition anchorRegex :: rx where
  "anchorRegex =
     seqs [lits ''<a'', Plus True (Cls isSpaceChar),
           Opt True (seqs [Star False notGt, Plus True (Cls isSpaceChar)]),
           lits ''href='', Grp 1 (Cls isQuote), Grp 2 (Star False dot), Bref 1,
           Star True notGt, Lit (CHR ''>''), Grp 3 (Star False dot), lits ''</a>'']"

text \<open>Whether the source sets \<open>isInternal\<close> for a trimmed, lower-cased href.\<close>

definition isInternal :: "string \<Rightarrow> string \<Rightarrow> bool" where
  "isInternal site lowerHref =
     (if startsWith lowerHref ''/'' \<or> (site \<noteq> [] \<and> str_includes lowerHref site) then True
      else if \<not> startsWith lowerHref ''http'' \<and> \<not> startsWith lowerHref ''#''
              \<and> \<not> startsWith lowerHref ''mailto'' then True
      else False)"

definition isValid :: "string list \<Rightarrow> string \<Rightarrow> bool" where
  "isValid validPaths pathToCheck =
     (pathToCheck \<in> set validPaths
      \<or> list_ex (\<lambda>vp. endsWith vp pathToCheck \<or> endsWith pathToCheck vp) validPaths)"

definition internalLink :: "string \<Rightarrow> string \<Rightarrow> string" where
  "internalLink cleanHref txt =
     ''<a href='' @ [DQ] @ cleanHref @ [DQ] @ '' class='' @ [DQ] @ ''sota-internal-link'' @ [DQ]
       @ '' title='' @ [DQ] @ ''Read more: '' @ filter (\<lambda>c. c \<noteq> DQ) txt @ [DQ] @ ''>''
       @ txt @ ''</a>''"

definition removedLink :: "string \<Rightarrow> string" where
  "removedLink txt =
     ''<span class='' @ [DQ] @ ''sota-text-highlight'' @ [DQ] @ '' title='' @ [DQ]
       @ ''Link removed by validator (404 prevention)'' @ [DQ] @ ''>'' @ txt @ ''</span>''"

text \<open>
  The callback of the replacement, called with the matched anchor and its captures: the
  quote, the href and the text between the tags.
\<close>

definition sanitizeAnchor ::
  "(string \<Rightarrow> string option) \<Rightarrow> string list \<Rightarrow> string \<Rightarrow> string \<Rightarrow> caps \<Rightarrow> string" where
  "sanitizeAnchor pathname validPaths site whole cs =
     (let href = grp cs 2; txt = grp cs 3;
          cleanHref = trim href;
          lowerHref = toLowerCase cleanHref
      in if isInternal site lowerHref
         then (let pathToCheck = normalize pathname cleanHref
               in if isValid validPaths pathToCheck
                  then internalLink cleanHref txt
                  else removedLink txt)
         else whole)"

definition validateAndSanitizeLinks ::
  "(string \<Rightarrow> string option) \<Rightarrow> string \<Rightarrow> SemanticNode list \<Rightarrow> string \<Rightarrow> string" where
  "validateAndSanitizeLinks pathname html validNodes site =
     replaceAll flags_i anchorRegex
       (sanitizeAnchor pathname (validPathsOf pathname validNodes) site) None html"

section \<open>The Markdown stripper\<close>

text \<open>The pattern \<open>/\(\d+\s*words,?\s*total\s*\d+\)/gi\<close>.\<close>

definition wordCountRegex :: rx where
  "wordCountRegex =
     seqs [Lit (CHR ''(''), Plus True (Cls isDigitChar), Star True (Cls isSpaceChar),
           lits ''words'', Opt True (Lit (CHR '','')), Star True (Cls isSpaceChar),
           lits ''total'', Star True (Cls isSpaceChar), Plus True (Cls isDigitChar),
           Lit (CHR '')'')]"

text \<open>
  The patterns \<open>/^##\s+(.*$)/gim\<close>, \<open>/^###\s+(.*$)/gim\<close> and \<open>/^####\s+(.*$)/gim\<close>, by the
  number of \<open>#\<close>.
\<close>

definition headerRegex :: "nat \<Rightarrow> rx" where
  "headerRegex n =
     seqs [Bol, lits (replicate n (CHR ''#'')), Plus True (Cls isSpaceChar),
           Grp 1 (seqs [Star True dot, Eol])]"

text \<open>The pattern \<open>/\*\*(.*?)\*\*/g\<close>.\<close>

definition boldRegex :: rx where
  "boldRegex = seqs [lits ''**'', Grp 1 (Star False dot), lits ''**'']"

text \<open>The pattern \<open>/(?:^|\n)[-*]\s+(.*)/g\<close>.\<close>

definition bulletRegex :: rx where
  "bulletRegex =
     seqs [Alt Bol (Lit NL), Cls (\<lambda>c. c = CHR ''-'' \<or> c = CHR ''*''),
           Plus True (Cls isSpaceChar), Grp 1 (Star True dot)]"

text \<open>The pattern \<open>/(<li>.*<\/li>\n?)+/g\<close>.\<close>

definition listRunRegex :: rx where
  "listRunRegex =
     Plus True (Grp 1 (seqs [lits ''<li>'', Star True dot, lits ''</li>'', Opt True (Lit NL)]))"

text \<open>The replacement string \<open>'<tag>$1</tag>'\<close>.\<close>

definition wrap1 :: "string \<Rightarrow> string \<Rightarrow> caps \<Rightarrow> string" where
  "wrap1 tag whole cs = ''<'' @ tag @ ''>'' @ grp cs 1 @ ''</'' @ tag @ ''>''"

definition forceHtmlStructure :: "string \<Rightarrow> string" where
  "forceHtmlStructure txt =
     (let clean = txt;
          clean = replaceAll flags_i wordCountRegex (\<lambda>whole cs. []) None clean;
          clean = replaceAll flags_im (headerRegex 2) (wrap1 ''h2'') None clean;
          clean = replaceAll flags_im (headerRegex 3) (wrap1 ''h3'') None clean;
          clean = replaceAll flags_im (headerRegex 4) (wrap1 ''h4'') None clean;
          clean = replaceAll flags_none boldRegex (wrap1 ''strong'') None clean;
          clean =
            (if \<not> str_includes clean ''<ul>''
                \<and> (str_includes clean [NL, CHR ''-'', CHR '' '']
                     \<or> str_includes clean [NL, CHR ''*'', CHR '' ''])
             then (let clean = replaceAll flags_none bulletRegex (wrap1 ''li'') None clean
                   in replaceAll flags_none listRunRegex
                        (\<lambda>whole cs. ''<ul>'' @ whole @ ''</ul>'') None clean)
             else clean)
      in trim clean)"

section \<open>Properties of the tokenizer\<close>

lemma set_addAll: "set (addAll acc xs) = set acc \<union> set xs"
  by (induction xs arbitrary: acc) auto

lemma distinct_addAll: "distinct acc \<Longrightarrow> distinct (addAll acc xs)"
  by (induction xs arbitrary: acc) auto

lemma set_newSet: "set (newSet xs) = set xs"
  by (simp add: newSet_def set_addAll)

lemma distinct_newSet: "distinct (newSet xs)"
  by (simp add: newSet_def distinct_addAll)

lemma of_char_toLowerChar:
  "(of_char (toLowerChar c) :: nat) =
     (let n = of_char c in
      if (65 \<le> n \<and> n \<le> 90) \<or> (192 \<le> n \<and> n \<le> 214) \<or> (216 \<le> n \<and> n \<le> 222)
      then n + 32 else n)"
  by (auto simp: toLowerChar_def Let_def)

lemma toLowerChar_idem: "toLowerChar (toLowerChar c) = toLowerChar c"
proof -
  have "(of_char (toLowerChar (toLowerChar c)) :: nat) = of_char (toLowerChar c)"
    by (simp add: of_char_toLowerChar Let_def)
  then show ?thesis by simp
qed

lemma toLowerCase_idem: "toLowerCase (toLowerCase s) = toLowerCase s"
  by (simp add: toLowerCase_def toLowerChar_idem)

lemma toLowerChar_space: "isSpaceChar c \<Longrightarrow> toLowerChar c = c"
  by (auto simp: isSpaceChar_def toLowerChar_def Let_def)

lemma splitWs_chars:
  "w \<in> set (splitWs cur s) \<Longrightarrow> set w \<subseteq> set cur \<union> {c \<in> set s. \<not> isSpaceChar c}"
proof (induction cur s arbitrary: w rule: splitWs.induct)
  case (1 cur)
  then show ?case by simp
next
  case (2 cur c cs)
  show ?case
  proof (cases "isSpaceChar c")
    case True
    with "2.prems" have "w = cur \<or> w \<in> set (splitWs [] (dropWhile isSpaceChar cs))" by simp
    then show ?thesis
    proof
      assume "w = cur" then show ?thesis by auto
    next
      assume "w \<in> set (splitWs [] (dropWhile isSpaceChar cs))"
      from "2.IH"(1)[OF True this] have "set w \<subseteq> {c \<in> set (dropWhile isSpaceChar cs). \<not> isSpaceChar c}"
        by simp
      moreover have "set (dropWhile isSpaceChar cs) \<subseteq> set cs" by (rule set_dropWhileD[THEN subsetI])
      ultimately show ?thesis by auto
    qed
  next
    case False
    with "2.prems" have "w \<in> set (splitWs (cur @ [c]) cs)" by simp
    from "2.IH"(2)[OF False this] False show ?thesis by auto
  qed
qed

lemma splitWs_spaces:
  "\<forall>c \<in> set s. isSpaceChar c \<Longrightarrow> set (splitWs cur s) \<subseteq> {cur, []}"
proof (induction cur s rule: splitWs.induct)
  case (1 cur)
  then show ?case by simp
next
  case (2 cur c cs)
  then have sp: "isSpaceChar c" and rest: "\<forall>c \<in> set cs. isSpaceChar c" by simp_all
  from rest have d: "dropWhile isSpaceChar cs = []" by (simp add: dropWhile_eq_Nil_conv)
  have "splitWs cur (c # cs) = cur # splitWs [] (dropWhile isSpaceChar cs)"
    using sp by simp
  also have "\<dots> = cur # splitWs [] []" by (simp only: d)
  finally show ?case by simp
qed


text \<open>
  Claim C5. For every input string, every token of the tokenizer's output is longer than
  two characters, is lower-case (it is its own lower-case form, and consists of word
  characters only) and is not a stop word; the output has no duplicates; two inputs
  with the same lower-case form give the same tokens, as \<open>Cats\<close> and \<open>cats\<close> do; and an
  input of white space only, the empty input included, gives the empty set.
\<close>

theorem tokenize_tokens:
  "(\<forall>t \<in> set (tokenize x).
      length t > 2 \<and> toLowerCase t = t \<and> t \<notin> set stopWords
      \<and> (\<forall>c \<in> set t. isWordChar c))
   \<and> distinct (tokenize x)
   \<and> (toLowerCase x = toLowerCase y \<longrightarrow> tokenize x = tokenize y)
   \<and> tokenize ''Cats'' = tokenize ''cats''
   \<and> ((\<forall>c \<in> set x. isSpaceChar c) \<longrightarrow> tokenize x = [])"
proof (intro conjI ballI impI)
  fix t assume t: "t \<in> set (tokenize x)"
  let ?s = "filter (\<lambda>c. isWordChar c \<or> isSpaceChar c) (toLowerCase x)"
  from t have piece: "t \<in> set (splitWs [] ?s)" and len: "length t > 2"
    and stop: "t \<notin> set stopWords"
    by (simp_all add: tokenize_def set_newSet)
  from len show "2 < length t" .
  from stop show "t \<notin> set stopWords" .
  from splitWs_chars[OF piece]
  have chars: "set t \<subseteq> {c \<in> set ?s. \<not> isSpaceChar c}" by simp
  then have low: "\<And>c. c \<in> set t \<Longrightarrow> toLowerChar c = c"
    by (auto simp: toLowerCase_def toLowerChar_idem)
  then show "toLowerCase t = t"
    by (simp add: toLowerCase_def map_idI)
  fix c assume "c \<in> set t"
  with chars show "isWordChar c" by auto
next
  show "distinct (tokenize x)" by (simp add: tokenize_def distinct_newSet)
next
  assume "toLowerCase x = toLowerCase y"
  then show "tokenize x = tokenize y" by (simp add: tokenize_def)
next
  have "toLowerCase ''Cats'' = toLowerCase ''cats''" by code_simp
  then show "tokenize ''Cats'' = tokenize ''cats''" by (simp add: tokenize_def)
next
  assume sp: "\<forall>c \<in> set x. isSpaceChar c"
  let ?s = "filter (\<lambda>c. isWordChar c \<or> isSpaceChar c) (toLowerCase x)"
  from sp have "\<forall>c \<in> set ?s. isSpaceChar c"
    by (auto simp: toLowerCase_def toLowerChar_space)
  from splitWs_spaces[OF this, of "[]"]
  have "filter (\<lambda>w. length w > 2 \<and> w \<notin> set stopWords) (splitWs [] ?s) = []"
    by (auto simp: filter_empty_conv)
  then show "tokenize x = []" by (simp add: tokenize_def newSet_def)
qed

theorem tokenize_tokens_witness:
  "tokenize ''The Cats and the cats! in a_b  x-ray'' = [''cats'', ''a_b'', ''xray'']
   \<and> length ''cats'' > 2 \<and> toLowerCase ''cats'' = ''cats'' \<and> ''cats'' \<notin> set stopWords
   \<and> distinct [''cats'', ''a_b'', ''xray'']
   \<and> tokenize ''Cats'' = tokenize ''cats''
   \<and> tokenize ''   '' = []"
proof -
  have ev: "tokenize ''The Cats and the cats! in a_b  x-ray'' = [''cats'', ''a_b'', ''xray'']"
    by code_simp
  have sp: "\<forall>c \<in> set ''   ''. isSpaceChar c" by (simp add: isSpaceChar_def)
  from tokenize_tokens[of "''The Cats and the cats! in a_b  x-ray''" "''   ''"]
  have "length ''cats'' > 2 \<and> toLowerCase ''cats'' = ''cats'' \<and> ''cats'' \<notin> set stopWords"
    and "distinct [''cats'', ''a_b'', ''xray'']"
    and "tokenize ''Cats'' = tokenize ''cats''"
    unfolding ev by simp_all
  moreover from tokenize_tokens[of "''   ''" "''   ''"] sp have "tokenize ''   '' = []" by blast
  ultimately show ?thesis using ev by simp
qed

section \<open>Properties of the mesh builder\<close>

text \<open>
  Claim C6. For every sequence of posts, the mesh has as many nodes as there are posts,
  the node at each position is made from the post at that position, and its tokens
  are the tokenizer's output on the post's title, a space and the slug.
\<close>

theorem buildMesh_nodes:
  "length (buildMesh posts) = length posts
   \<and> (\<forall>i < length posts.
         node_id (buildMesh posts ! i) = wp_id (posts ! i)
         \<and> title (buildMesh posts ! i) = title_rendered (posts ! i)
         \<and> url (buildMesh posts ! i) = link (posts ! i)
         \<and> tokens (buildMesh posts ! i)
             = tokenize (title_rendered (posts ! i) @ '' '' @ slug (posts ! i)))"
  by (simp add: buildMesh_def)

theorem buildMesh_nodes_witness:
  "length (buildMesh
      [\<lparr>wp_id = 7, title_rendered = ''Best Widgets'', link = ''/best-widgets'', slug = ''best-widgets''\<rparr>,
       \<lparr>wp_id = 3, title_rendered = ''The Cats'', link = ''/cats'', slug = ''cats''\<rparr>]) = 2
   \<and> tokens (buildMesh
      [\<lparr>wp_id = 7, title_rendered = ''Best Widgets'', link = ''/best-widgets'', slug = ''best-widgets''\<rparr>,
       \<lparr>wp_id = 3, title_rendered = ''The Cats'', link = ''/cats'', slug = ''cats''\<rparr>] ! 1)
       = [''cats'']"
proof -
  let ?ps = "[\<lparr>wp_id = 7, title_rendered = ''Best Widgets'', link = ''/best-widgets'', slug = ''best-widgets''\<rparr>,
       \<lparr>wp_id = 3, title_rendered = ''The Cats'', link = ''/cats'', slug = ''cats''\<rparr>]"
  from buildMesh_nodes[of ?ps]
  have len: "length (buildMesh ?ps) = 2"
    and t1: "tokens (buildMesh ?ps ! 1) = tokenize ''The Cats cats''"
    by simp_all
  moreover have "tokenize ''The Cats cats'' = [''cats'']" by code_simp
  ultimately show ?thesis by simp
qed

end
